theory Spec2Isabelle
  imports Complex_Main "HOL-Library.AList"
begin

section \<open>The device location tracker of \<open>locate.py\<close>\<close>

text \<open>
  A shallow embedding of the class \<open>DeviceLocationTracker\<close>. Conventions:
  \<^item> Python numbers (\<open>int\<close> and \<open>float\<close>) are exact reals: rounding, overflow and the
    special values NaN and Infinity of binary floating point are not modelled. The
    properties below are those that do not depend on the value a floating-point
    operation returns: control flow, stored data, order of the room table, comparisons of
    exactly representable times, and the clamp of the weight. No general statement is
    made about the numeric value of a weight above the clamp or of a weighted centroid,
    where the program rounds, underflows to a zero total weight, or raises
    \<open>OverflowError\<close>; the positions that appear in the examples are those of the
    exact-real model.
  \<^item> A Python \<open>dict\<close> is an association list in insertion order; assignment to a key
    is \<open>AList.update\<close> (replace in place, or append a new key at the end).
  \<^item> A \<open>datetime\<close> is its number of microseconds since the epoch; \<open>isoformat\<close> followed
    by \<open>fromisoformat\<close> is the identity and is not modelled. Every call of
    \<open>datetime.now()\<close> is an explicit argument of the function that makes it.
  \<^item> An exception is a value of type \<open>error\<close>; what the program prints and what it
    writes to \<open>device_locations.json\<close> is appended to the field \<open>trace\<close> of the state.
\<close>

subsection \<open>Values\<close>

type_synonym datetime = int

type_synonym vec3 = "real \<times> real \<times> real"

type_synonym bounds = "real \<times> real \<times> real \<times> real \<times> real \<times> real"

text \<open>The result of \<open>json.loads\<close>. \<open>JBool\<close> is kept apart from \<open>JNum\<close> although Python's
  \<open>bool\<close> is a subclass of \<open>int\<close>; \<open>num_of\<close> below gives its numeric value.\<close>

datatype json =
    JNull
  | JBool bool
  | JNum real
  | JStr string
  | JArr "json list"
  | JObj "(string \<times> json) list"

datatype error =
    JSONDecodeError
  | IndexError
  | KeyError string
  | AttributeError
  | TypeError

text \<open>\<open>(a - b).total_seconds()\<close> for two datetimes given in microseconds.\<close>

definition total_seconds :: "int \<Rightarrow> real" where
  "total_seconds d = real_of_int d / 1000000"

text \<open>\<open>d.get(k, default)\<close>.\<close>

definition dict_get :: "('k \<times> 'v) list \<Rightarrow> 'k \<Rightarrow> 'v \<Rightarrow> 'v" where
  "dict_get d k dflt = (case map_of d k of None \<Rightarrow> dflt | Some v \<Rightarrow> v)"

text \<open>\<open>s.split(sep)\<close> for a one-character separator: never the empty list.\<close>

fun split :: "char \<Rightarrow> string \<Rightarrow> string list" where
  "split sep [] = [[]]"
| "split sep (c # cs) =
     (if c = sep then [] # split sep cs
      else (case split sep cs of [] \<Rightarrow> [[c]] | w # ws \<Rightarrow> (c # w) # ws))"

subsection \<open>Configuration (\<open>__init__\<close>, \<open>define_room_boundaries\<close>)\<close>

definition FEET_TO_METERS :: real where
  "FEET_TO_METERS = 0.3048"

definition home_width :: real where
  "home_width = 27 * FEET_TO_METERS"

definition home_length :: real where
  "home_length = 42 * FEET_TO_METERS"

definition floor_height :: real where
  "floor_height = 10 * FEET_TO_METERS"

definition esp32_positions :: "(string \<times> vec3) list" where
  "esp32_positions =
   [(''espresense_readingroom'',
       (10 * FEET_TO_METERS, 10 * FEET_TO_METERS, 5 * FEET_TO_METERS)),
    (''espresense_studio'',
       ((home_length - 5) * FEET_TO_METERS, 6 * FEET_TO_METERS, 3 * FEET_TO_METERS)),
    (''espresense_bedroom'',
       ((home_length - 10) * FEET_TO_METERS, 5 * FEET_TO_METERS,
        floor_height + 5 * FEET_TO_METERS)),
    (''espresense_amma'',
       ((home_length - 10) * FEET_TO_METERS, (home_width - 4) * FEET_TO_METERS,
        floor_height + 2 * FEET_TO_METERS)),
    (''espresense_kitchen'',
       (15 * FEET_TO_METERS, 6 * FEET_TO_METERS, floor_height + 3 * FEET_TO_METERS)),
    (''espresense_theatre'',
       ((home_length - 7) * FEET_TO_METERS, (home_width - 12) * FEET_TO_METERS,
        2 * floor_height + 2 * FEET_TO_METERS)),
    (''espresense_thetophat'',
       ((home_length - 21) * FEET_TO_METERS, (home_width - 4) * FEET_TO_METERS,
        2 * floor_height + 10 * FEET_TO_METERS))]"

text \<open>Room boundaries \<open>[x_min, x_max, y_min, y_max, z_min, z_max]\<close>, in the order of the
  dictionary literal. The bounds are the exact values of the expressions; the program
  holds their floating-point values, which can differ in the last digit.\<close>

definition rooms :: "(string \<times> bounds) list" where
  "rooms =
   [(''The Reading Space'',
       (0, home_width / 2, 0, home_length / 2, 0, floor_height)),
    (''Studio'',
       (0, home_width / 2, home_length / 2, home_length, 0, floor_height)),
    (''Ground Floor Hall'',
       (home_width / 2, home_width, 0, home_length, 0, floor_height)),
    (''Bedroom'',
       (0, 10 * FEET_TO_METERS, 0, 15 * FEET_TO_METERS, floor_height, 2 * floor_height)),
    (''Amma Bedroom'',
       (0, 10 * FEET_TO_METERS, home_width - 15 * FEET_TO_METERS, home_width,
        floor_height, 2 * floor_height)),
    (''Kitchen'',
       (home_length - 15 * FEET_TO_METERS, home_length, 0, 10 * FEET_TO_METERS,
        floor_height, 2 * floor_height)),
    (''Hall'',
       (10 * FEET_TO_METERS, home_length - 15 * FEET_TO_METERS, 0, home_width,
        floor_height, 2 * floor_height)),
    (''Theatre'',
       (home_length - 20 * FEET_TO_METERS, home_length, 0, 10 * FEET_TO_METERS,
        2 * floor_height, 3 * floor_height)),
    (''Den'',
       (home_length - 20 * FEET_TO_METERS, home_length, 10 * FEET_TO_METERS,
        20 * FEET_TO_METERS, 2 * floor_height, 3 * floor_height)),
    (''The Open Top'',
       (0, home_length - 20 * FEET_TO_METERS, 0, home_width,
        2 * floor_height, 3 * floor_height))]"

definition device_names :: "(string \<times> string) list" where
  "device_names =
   [(''irk:1f675efed04b065afa81b46b500cf042'', ''Su Watch''),
    (''irk:7aa501ab6bd5c2382aecff28ddfa1eee'', ''Sn iPhone''),
    (''irk:37112d6ca4debb67092ef94601af9318'', ''Su iPhone''),
    (''irk:48b4be2a5da9c3667670417d24d0b32f'', ''Sn Watch'')]"

subsection \<open>State\<close>

text \<open>A stored reading \<open>{"distance": ..., "timestamp": ...}\<close>. The distance is whatever
  JSON value the payload carried.\<close>

record reading =
  distance :: json
  timestamp :: datetime

text \<open>An entry of \<open>device_locations\<close>. The key \<open>"room"\<close> is read with a default and the
  key \<open>"friendly_name"\<close> is absent from the entries \<open>__init__\<close> makes, so both are
  optional.\<close>

record location =
  room :: "string option"
  position :: vec3
  loc_timestamp :: datetime
  friendly_name :: "string option"

type_synonym locations = "(string \<times> location) list"

datatype event =
    Write_json locations
  | Print_error_updating
  | Print_error_processing error
  | Print_moved string string

record tracker =
  device_readings :: "(string \<times> (string \<times> reading) list) list"
  device_locations :: locations
  trace :: "event list"

text \<open>A received MQTT message: its topic, and \<open>json.loads(msg.payload.decode('utf-8'))\<close>,
  which is \<open>None\<close> when decoding or parsing raises.\<close>

record message =
  topic :: string
  payload :: "json option"

subsection \<open>\<open>update_json_file\<close>\<close>

text \<open>\<open>write_ok\<close> tells whether opening and writing the file succeeds; when it does not,
  the exception is caught and a line is printed.\<close>

definition update_json_file :: "bool \<Rightarrow> tracker \<Rightarrow> tracker" where
  "update_json_file write_ok s =
     (if write_ok then s\<lparr>trace := trace s @ [Write_json (device_locations s)]\<rparr>
      else s\<lparr>trace := trace s @ [Print_error_updating]\<rparr>)"

subsection \<open>\<open>triangulate_position\<close>\<close>

text \<open>The numeric value of a JSON value under \<open>>\<close>, \<open>**\<close> and \<open>/\<close>; \<open>None\<close> where Python
  raises \<open>TypeError\<close>.\<close>

fun num_of :: "json \<Rightarrow> real option" where
  "num_of (JNum r) = Some r"
| "num_of (JBool b) = Some (if b then 1 else 0)"
| "num_of _ = None"

text \<open>Line 203: \<open>1 / (distance ** 2) if distance > 0.1 else 100\<close>, in exact arithmetic.
  The program's value above 0.1 is the rounded one: it is 0.0 for a huge integer distance
  and \<open>distance ** 2\<close> raises \<open>OverflowError\<close> for a huge float. Only the comparison and
  the constant 100 are used in what follows.\<close>

definition weight :: "real \<Rightarrow> real" where
  "weight d = (if d > 0.1 then 1 / d ^ 2 else 100)"

text \<open>Lines 215 to 221, the adjustment of \<open>position[2]\<close>.\<close>

definition snap_floor :: "real \<Rightarrow> real" where
  "snap_floor z =
     (if z < floor_height * 0.5 then 0.5 * floor_height
      else if z < floor_height * 1.5 then 1.5 * floor_height
      else 2.5 * floor_height)"

text \<open>The loop of lines 198 to 209 over \<open>readings.items()\<close>, on the pair of
  \<open>total_weight\<close> and \<open>position\<close>. The sums are exact here and rounded in the program.\<close>

fun accumulate :: "(string \<times> reading) list \<Rightarrow> real \<times> vec3 \<Rightarrow> error + (real \<times> vec3)" where
  "accumulate [] acc = Inr acc"
| "accumulate ((esp32_id, r) # rest) (total_weight, (px, py, pz)) =
     (case map_of esp32_positions esp32_id of
        None \<Rightarrow> Inl (KeyError esp32_id)
      | Some (ex, ey, ez) \<Rightarrow>
          (case num_of (distance r) of
             None \<Rightarrow> Inl TypeError
           | Some d \<Rightarrow>
               accumulate rest
                 (total_weight + weight d,
                  (px + ex * weight d, py + ey * weight d, pz + ez * weight d))))"

definition triangulate_position :: "string \<Rightarrow> (string \<times> reading) list \<Rightarrow> error + vec3" where
  "triangulate_position device_id readings =
     (case accumulate readings (0, (0, 0, 0)) of
        Inl e \<Rightarrow> Inl e
      | Inr (total_weight, (px, py, pz)) \<Rightarrow>
          (case (if total_weight > 0
                 then (px / total_weight, py / total_weight, pz / total_weight)
                 else (px, py, pz)) of
             (x, y, z) \<Rightarrow> Inr (x, y, snap_floor z)))"

subsection \<open>\<open>determine_room\<close>\<close>

fun in_bounds :: "bounds \<Rightarrow> vec3 \<Rightarrow> bool" where
  "in_bounds (x_min, x_max, y_min, y_max, z_min, z_max) (x, y, z) =
     ((x_min \<le> x \<and> x \<le> x_max) \<and> (y_min \<le> y \<and> y \<le> y_max) \<and> (z_min \<le> z \<and> z \<le> z_max))"

fun first_room :: "(string \<times> bounds) list \<Rightarrow> vec3 \<Rightarrow> string" where
  "first_room [] p = ''Outside''"
| "first_room ((room_name, b) # rest) p =
     (if in_bounds b p then room_name else first_room rest p)"

definition determine_room :: "vec3 \<Rightarrow> string" where
  "determine_room p = first_room rooms p"

subsection \<open>\<open>update_device_location\<close>\<close>

text \<open>The dictionary comprehension of lines 163 to 166.\<close>

definition valid_readings :: "datetime \<Rightarrow> (string \<times> reading) list \<Rightarrow> (string \<times> reading) list" where
  "valid_readings now readings =
     filter (\<lambda>(esp32_id, r). total_seconds (now - timestamp r) < 60) readings"

text \<open>\<open>loc.get("room", "Unknown")\<close>.\<close>

definition stored_room :: "location \<Rightarrow> string" where
  "stored_room loc = (case room loc of None \<Rightarrow> ''Unknown'' | Some r \<Rightarrow> r)"

text \<open>\<open>now\<close> is the clock read at line 162 and \<open>t_upd\<close> the one read at line 183. An
  exception leaves the state as it was on entry: everything that can raise comes before
  the first assignment.\<close>

definition update_device_location ::
    "datetime \<Rightarrow> datetime \<Rightarrow> bool \<Rightarrow> string \<Rightarrow> tracker \<Rightarrow> error + tracker" where
  "update_device_location now t_upd write_ok device_id s =
     (let readings = dict_get (device_readings s) device_id [] in
      if length readings < 3 then Inr s
      else
        let valid = valid_readings now readings in
        if length valid < 3 then Inr s
        else
          (case triangulate_position device_id valid of
             Inl e \<Rightarrow> Inl e
           | Inr pos \<Rightarrow>
               let r = determine_room pos in
               (case map_of (device_locations s) device_id of
                  None \<Rightarrow> Inl (KeyError device_id)
                | Some loc \<Rightarrow>
                    if r \<noteq> stored_room loc then
                      let s1 = s\<lparr>device_locations :=
                                   AList.update device_id
                                     \<lparr>room = Some r, position = pos, loc_timestamp = t_upd,
                                      friendly_name =
                                        Some (dict_get device_names device_id ''Unknown Device'')\<rparr>
                                     (device_locations s)\<rparr>;
                          s2 = update_json_file write_ok s1
                      in Inr (s2\<lparr>trace := trace s2 @
                                [Print_moved (dict_get device_names device_id device_id) r]\<rparr>)
                    else Inr s)))"

subsection \<open>\<open>on_message\<close>\<close>

text \<open>The body of the \<open>try\<close> block. \<open>t_store\<close> is the clock read at line 144. An
  exception is returned together with the state at the moment it is raised, since the
  reading is stored before \<open>update_device_location\<close> runs.\<close>

definition on_message_body ::
    "datetime \<Rightarrow> datetime \<Rightarrow> datetime \<Rightarrow> bool \<Rightarrow> message \<Rightarrow> tracker
       \<Rightarrow> (error \<times> tracker) + tracker" where
  "on_message_body t_store now t_upd write_ok msg s =
     (case payload msg of
        None \<Rightarrow> Inl (JSONDecodeError, s)
      | Some pl \<Rightarrow>
          let topic_parts = split CHR ''/'' (topic msg) in
          if length topic_parts \<le> 2 then Inl (IndexError, s)
          else
            let device_id = topic_parts ! 2 in
            if length topic_parts \<le> 3 then Inl (IndexError, s)
            else
              let esp32_name = ''espresense_'' @ topic_parts ! 3 in
              if device_id \<notin> fst ` set device_names then Inr s
              else if esp32_name \<in> fst ` set esp32_positions then
                (case pl of
                   JObj kvs \<Rightarrow>
                     let r = \<lparr>distance = dict_get kvs ''distance'' (JNum 0),
                              timestamp = t_store\<rparr>
                     in (case map_of (device_readings s) device_id of
                           None \<Rightarrow> Inl (KeyError device_id, s)
                         | Some rs \<Rightarrow>
                             let s1 = s\<lparr>device_readings :=
                                          AList.update device_id
                                            (AList.update esp32_name r rs)
                                            (device_readings s)\<rparr>
                             in (case update_device_location now t_upd write_ok device_id s1 of
                                   Inl e \<Rightarrow> Inl (e, s1)
                                 | Inr s2 \<Rightarrow> Inr s2))
                 | _ \<Rightarrow> Inl (AttributeError, s))
              else Inr s)"

text \<open>The handler with its \<open>except Exception\<close> clause: it always returns.\<close>

definition on_message ::
    "datetime \<Rightarrow> datetime \<Rightarrow> datetime \<Rightarrow> bool \<Rightarrow> message \<Rightarrow> tracker \<Rightarrow> tracker" where
  "on_message t_store now t_upd write_ok msg s =
     (case on_message_body t_store now t_upd write_ok msg s of
        Inl (e, s') \<Rightarrow> s'\<lparr>trace := trace s' @ [Print_error_processing e]\<rparr>
      | Inr s' \<Rightarrow> s')"

subsection \<open>The state after \<open>__init__\<close>\<close>

text \<open>\<open>t0 d\<close> is the clock read while the entry of device \<open>d\<close> is built, and \<open>file\<close> the
  result of loading \<open>device_locations.json\<close>: \<open>None\<close> when the file is missing or is not
  JSON, in which case the initial table is written out.\<close>

definition init :: "(string \<Rightarrow> datetime) \<Rightarrow> locations option \<Rightarrow> bool \<Rightarrow> tracker" where
  "init t0 file write_ok =
     (let s = \<lparr>device_readings = map (\<lambda>(device_id, n). (device_id, [])) device_names,
                device_locations =
                  map (\<lambda>(device_id, n).
                         (device_id,
                          \<lparr>room = Some ''Unknown'', position = (0, 0, 0),
                           loc_timestamp = t0 device_id, friendly_name = None\<rparr>))
                      device_names,
                trace = []\<rparr>
      in case file of
           Some locs \<Rightarrow> s\<lparr>device_locations := locs\<rparr>
         | None \<Rightarrow> update_json_file write_ok s)"

subsection \<open>Concrete inputs\<close>

definition su_watch :: string where
  "su_watch = ''irk:1f675efed04b065afa81b46b500cf042''"

text \<open>Three readings of distances 1 m, 1 m and 2 m, taken at seconds 1, 2 and 3.\<close>

definition three_readings :: "(string \<times> reading) list" where
  "three_readings =
     [(''espresense_readingroom'', \<lparr>distance = JNum 1, timestamp = 1000000\<rparr>),
      (''espresense_studio'', \<lparr>distance = JNum 1, timestamp = 2000000\<rparr>),
      (''espresense_kitchen'', \<lparr>distance = JNum 2, timestamp = 3000000\<rparr>)]"

text \<open>The tracker as constructed at time 0 with no file on disk.\<close>

definition fresh_tracker :: tracker where
  "fresh_tracker = init (\<lambda>d. 0) None True"

text \<open>The fresh tracker, then holding the readings \<open>rs\<close> for the first device.\<close>

definition tracker_with :: "(string \<times> reading) list \<Rightarrow> tracker" where
  "tracker_with rs =
     fresh_tracker
       \<lparr>device_readings := AList.update su_watch rs (device_readings fresh_tracker)\<rparr>"

text \<open>Readings that are, at second 100, of age 59.999999 s, exactly 60 s, and -0.000005 s.\<close>

definition ttl_readings :: "(string \<times> reading) list" where
  "ttl_readings =
     [(''espresense_studio'', \<lparr>distance = JNum 1, timestamp = 40000001\<rparr>),
      (''espresense_kitchen'', \<lparr>distance = JNum 2, timestamp = 40000000\<rparr>),
      (''espresense_amma'', \<lparr>distance = JNum 2, timestamp = 100000005\<rparr>)]"

text \<open>Two stale and two fresh readings, as seen at second 100.\<close>

definition stale_readings :: "(string \<times> reading) list" where
  "stale_readings =
     [(''espresense_readingroom'', \<lparr>distance = JNum 1, timestamp = 1000000\<rparr>),
      (''espresense_studio'', \<lparr>distance = JNum 1, timestamp = 2000000\<rparr>),
      (''espresense_kitchen'', \<lparr>distance = JNum 2, timestamp = 90000000\<rparr>),
      (''espresense_amma'', \<lparr>distance = JNum 2, timestamp = 95000000\<rparr>)]"

text \<open>The location that \<open>three_readings\<close> give, stored at \<open>t_upd = 4.000001 s\<close>.\<close>

definition bedroom_location :: location where
  "bedroom_location =
     \<lparr>room = Some ''Bedroom'', position = (6842633 / 2343750, 889 / 375, 1143 / 250),
      loc_timestamp = 4000001, friendly_name = Some ''Su Watch''\<rparr>"

text \<open>The tracker after \<open>three_readings\<close> have moved the first device to the bedroom.\<close>

definition moved_tracker :: tracker where
  "moved_tracker =
     (tracker_with three_readings)
       \<lparr>device_locations :=
          AList.update su_watch bedroom_location
            (device_locations (tracker_with three_readings)),
        trace := trace (tracker_with three_readings) @
          [Write_json (AList.update su_watch bedroom_location
                         (device_locations (tracker_with three_readings))),
           Print_moved ''Su Watch'' ''Bedroom'']\<rparr>"

text \<open>A message of the kitchen anchor about the first device, with a given parsed payload.\<close>

definition kitchen_message :: "json option \<Rightarrow> message" where
  "kitchen_message pl =
     \<lparr>topic = ''espresense/devices/irk:1f675efed04b065afa81b46b500cf042/kitchen'',
      payload = pl\<rparr>"

text \<open>Messages about a device and from an anchor that are not configured.\<close>

definition unknown_device_message :: message where
  "unknown_device_message =
     \<lparr>topic = ''espresense/devices/irk:00000000000000000000000000000000/kitchen'',
      payload = Some (JObj [(''distance'', JNum 1)])\<rparr>"

definition unknown_anchor_message :: message where
  "unknown_anchor_message =
     \<lparr>topic = ''espresense/devices/irk:1f675efed04b065afa81b46b500cf042/garage'',
      payload = Some (JObj [(''distance'', JNum 1)])\<rparr>"

section \<open>Properties\<close>

lemmas config_defs = FEET_TO_METERS_def home_width_def home_length_def floor_height_def

subsection \<open>Freshness of readings\<close>

text \<open>
  Claim C5. A stored reading is among the valid readings exactly when the time elapsed
  since its timestamp is strictly less than 60 seconds (60 000 000 microseconds); a
  reading whose age is exactly 60 seconds is excluded.
\<close>

theorem valid_readings_ttl:
  "((a, r) \<in> set (valid_readings now rs) \<longleftrightarrow>
      (a, r) \<in> set rs \<and> now - timestamp r < 60 * 1000000) \<and>
   (now - timestamp r = 60 * 1000000 \<longrightarrow> (a, r) \<notin> set (valid_readings now rs))"
  by (auto simp: valid_readings_def total_seconds_def)

theorem valid_readings_ttl_witness:
  "(100000000::int) - 40000000 = 60 * 1000000 \<and>
   (''espresense_kitchen'', \<lparr>distance = JNum 2, timestamp = 40000000\<rparr>) \<in> set ttl_readings \<and>
   (''espresense_kitchen'', \<lparr>distance = JNum 2, timestamp = 40000000\<rparr>)
      \<notin> set (valid_readings 100000000 ttl_readings) \<and>
   (''espresense_studio'', \<lparr>distance = JNum 1, timestamp = 40000001\<rparr>)
      \<in> set (valid_readings 100000000 ttl_readings)"
  using valid_readings_ttl [of "''espresense_kitchen''" "\<lparr>distance = JNum 2, timestamp = 40000000\<rparr>"
      100000000 ttl_readings]
    valid_readings_ttl [of "''espresense_studio''" "\<lparr>distance = JNum 1, timestamp = 40000001\<rparr>"
      100000000 ttl_readings]
  by (simp add: ttl_readings_def)

subsection \<open>Room lookup\<close>

lemma first_room_first:
  "i < length rs \<Longrightarrow> in_bounds (snd (rs ! i)) p \<Longrightarrow> \<forall>j<i. \<not> in_bounds (snd (rs ! j)) p
   \<Longrightarrow> first_room rs p = fst (rs ! i)"
proof (induction rs arbitrary: i)
  case Nil
  then show ?case by simp
next
  case (Cons a rs)
  obtain n b where a: "a = (n, b)" by (cases a)
  show ?case
  proof (cases i)
    case 0
    then show ?thesis using Cons.prems a by simp
  next
    case (Suc k)
    have nb: "\<not> in_bounds b p" using Cons.prems(3) Suc a by force
    have "\<forall>j<k. \<not> in_bounds (snd (rs ! j)) p"
      using Cons.prems(3) Suc by force
    then have "first_room rs p = fst (rs ! k)"
      using Cons.IH [of k] Cons.prems Suc by simp
    then show ?thesis using nb a Suc by simp
  qed
qed

lemma first_room_none:
  "\<forall>i<length rs. \<not> in_bounds (snd (rs ! i)) p \<Longrightarrow> first_room rs p = ''Outside''"
proof (induction rs)
  case Nil
  then show ?case by simp
next
  case (Cons a rs)
  obtain n b where a: "a = (n, b)" by (cases a)
  have "\<not> in_bounds b p" using Cons.prems a by force
  moreover have "\<forall>i<length rs. \<not> in_bounds (snd (rs ! i)) p"
    using Cons.prems by force
  ultimately show ?case using Cons.IH a by simp
qed

lemma first_room_not_later:
  assumes "distinct (map fst rs)" and "i < j" and "j < length rs"
    and "in_bounds (snd (rs ! i)) p"
  shows "first_room rs p \<noteq> fst (rs ! j)"
proof -
  define k where "k = (LEAST m. in_bounds (snd (rs ! m)) p)"
  have kin: "in_bounds (snd (rs ! k)) p"
    unfolding k_def using assms(4) by (rule LeastI)
  have kle: "k \<le> i" unfolding k_def using assms(4) by (rule Least_le)
  have "\<forall>m<k. \<not> in_bounds (snd (rs ! m)) p"
    unfolding k_def using not_less_Least by blast
  then have res: "first_room rs p = fst (rs ! k)"
    using first_room_first [of k rs p] kin kle assms(2,3) by simp
  have "k < length (map fst rs)" "j < length (map fst rs)" "k \<noteq> j"
    using kle assms(2,3) by simp_all
  then have "map fst rs ! k \<noteq> map fst rs ! j"
    using nth_eq_iff_index_eq [OF assms(1), of k j] by simp
  then have "fst (rs ! k) \<noteq> fst (rs ! j)"
    using kle assms(2,3) by simp
  then show ?thesis using res by simp
qed

lemma distinct_rooms: "distinct (map fst rooms)"
  by (simp add: rooms_def)

lemma rooms_0:
  "rooms ! 0 =
     (''The Reading Space'', (0, home_width / 2, 0, home_length / 2, 0, floor_height))"
  by (simp add: rooms_def)

lemma rooms_1:
  "rooms ! Suc 0 =
     (''Studio'', (0, home_width / 2, home_length / 2, home_length, 0, floor_height))"
  by (simp add: rooms_def)

text \<open>
  Claim C4. For every position, \<open>determine_room\<close> returns the name of the first room, in
  the order of the table, whose inclusive bounds contain the position on all three axes,
  and \<open>"Outside"\<close> when no room contains it. Where two rooms contain the position, as on
  a shared boundary, the later one is never returned.
\<close>

theorem determine_room_first_match:
  "(\<forall>i<length rooms.
      in_bounds (snd (rooms ! i)) p \<and> (\<forall>j<i. \<not> in_bounds (snd (rooms ! j)) p)
      \<longrightarrow> determine_room p = fst (rooms ! i)) \<and>
   ((\<forall>i<length rooms. \<not> in_bounds (snd (rooms ! i)) p) \<longrightarrow> determine_room p = ''Outside'') \<and>
   (\<forall>i j. i < j \<and> j < length rooms \<and> in_bounds (snd (rooms ! i)) p
      \<longrightarrow> determine_room p \<noteq> fst (rooms ! j))"
  unfolding determine_room_def
  using first_room_first [of _ rooms p] first_room_none [of rooms p]
    first_room_not_later [OF distinct_rooms, of _ _ p]
  by blast

theorem determine_room_first_match_witness:
  "in_bounds (snd (rooms ! 0)) (1, home_length / 2, 1) \<and>
   in_bounds (snd (rooms ! 1)) (1, home_length / 2, 1) \<and>
   determine_room (1, home_length / 2, 1) = ''The Reading Space'' \<and>
   determine_room (1, home_length / 2, 1) \<noteq> ''Studio''"
proof -
  let ?p = "(1, home_length / 2, 1) :: vec3"
  have l: "length rooms = 10" by (simp add: rooms_def)
  have a: "in_bounds (snd (rooms ! 0)) ?p" by (simp add: rooms_0 config_defs)
  have b: "in_bounds (snd (rooms ! 1)) ?p" by (simp add: rooms_1 config_defs)
  have "determine_room ?p = fst (rooms ! 0)"
    using determine_room_first_match [of ?p] a l by simp
  moreover have "determine_room ?p \<noteq> fst (rooms ! 1)"
    using determine_room_first_match [of ?p] a l by simp
  ultimately show ?thesis using a b by (simp add: rooms_0 rooms_1)
qed

subsection \<open>Floor snapping\<close>

text \<open>
  Claim C8 asks that snapping an already snapped height gives the same height. The code
  does not do so: the value \<open>0.5 * floor_height\<close> that it assigns to the ground floor is
  not below the first threshold, so that snapping it again gives \<open>1.5 * floor_height\<close>.
\<close>

theorem snap_floor_not_idempotent:
  "snap_floor 0 = 0.5 * floor_height \<and>
   snap_floor (snap_floor 0) = 1.5 * floor_height \<and>
   snap_floor (snap_floor 0) \<noteq> snap_floor 0"
  by (simp add: snap_floor_def config_defs)

subsection \<open>Triangulation\<close>

lemma triangulate_of_accumulate:
  "accumulate rs (0, (0, 0, 0)) = Inr (T, (X, Y, Z)) \<Longrightarrow> 0 < T \<Longrightarrow>
   triangulate_position device_id rs = Inr (X / T, Y / T, snap_floor (Z / T))"
  by (simp add: triangulate_position_def)

text \<open>A raw height equal to the ground-floor value \<open>0.5 * floor_height\<close> is reachable,
  and is placed on the first floor.\<close>

lemma raw_ground_centre_is_first_floor:
  "accumulate three_readings (0, (0, 0, 0)) =
     Inr (9 / 4, (9 / 4 * (6842633 / 2343750), 9 / 4 * (889 / 375),
                  9 / 4 * (0.5 * floor_height))) \<and>
   triangulate_position su_watch three_readings =
     Inr (6842633 / 2343750, 889 / 375, 1.5 * floor_height)"
proof -
  have acc: "accumulate three_readings (0, (0, 0, 0)) =
      Inr (9 / 4, (9 / 4 * (6842633 / 2343750), 9 / 4 * (889 / 375),
                   9 / 4 * (0.5 * floor_height)))"
    by (simp add: three_readings_def esp32_positions_def weight_def config_defs)
  show ?thesis
    using acc triangulate_of_accumulate [OF acc, of su_watch]
    by (simp add: snap_floor_def config_defs)
qed

subsection \<open>The update of a device location\<close>

text \<open>
  Claim C6. When fewer than three of the stored readings of a device are fresh,
  \<open>update_device_location\<close> returns with the whole state unchanged: the location of the
  device, the file and the output are as before, however many stale readings are stored.
\<close>

theorem fewer_than_three_fresh_no_transition:
  "length (valid_readings now (dict_get (device_readings s) device_id [])) < 3 \<Longrightarrow>
   update_device_location now t_upd write_ok device_id s = Inr s"
  by (simp add: update_device_location_def Let_def)

lemma readings_tracker_with:
  "dict_get (device_readings (tracker_with rs)) su_watch [] = rs"
  by (simp add: tracker_with_def fresh_tracker_def init_def update_json_file_def device_names_def su_watch_def
      dict_get_def)

theorem fewer_than_three_fresh_no_transition_witness:
  "length (dict_get (device_readings (tracker_with stale_readings)) su_watch []) = 4 \<and>
   length (valid_readings 100000000
      (dict_get (device_readings (tracker_with stale_readings)) su_watch [])) = 2 \<and>
   update_device_location 100000000 100000001 True su_watch (tracker_with stale_readings) =
     Inr (tracker_with stale_readings)"
proof -
  have v: "length (valid_readings 100000000 stale_readings) = 2"
    by (simp add: valid_readings_def stale_readings_def total_seconds_def)
  have l: "length stale_readings = 4" by (simp add: stale_readings_def)
  show ?thesis
    using fewer_than_three_fresh_no_transition
      [of 100000000 "tracker_with stale_readings" su_watch 100000001 True] v l
    by (simp add: readings_tracker_with)
qed

text \<open>
  Claim C1. Let a device have at least three fresh readings whose triangulation yields
  the position \<open>pos\<close>, and let it have a stored location. If the room of \<open>pos\<close> equals
  the stored room, \<open>update_device_location\<close> returns the state unchanged: no location,
  no file write, no output. Otherwise the entry of the device becomes exactly the room,
  \<open>pos\<close>, the time of the update and the display name; the whole table is written to
  the file once (when the write fails, one error line is printed instead), and one
  line announcing the move is printed.
\<close>

theorem room_change_guard:
  assumes "3 \<le> length (valid_readings now (dict_get (device_readings s) device_id []))"
    and "triangulate_position device_id
           (valid_readings now (dict_get (device_readings s) device_id [])) = Inr pos"
    and "map_of (device_locations s) device_id = Some loc"
    and "new_locations =
           AList.update device_id
             \<lparr>room = Some (determine_room pos), position = pos, loc_timestamp = t_upd,
              friendly_name = Some (dict_get device_names device_id ''Unknown Device'')\<rparr>
             (device_locations s)"
  shows "update_device_location now t_upd write_ok device_id s =
           Inr (if determine_room pos = stored_room loc then s
                else s\<lparr>device_locations := new_locations,
                       trace := trace s @
                         [if write_ok then Write_json new_locations else Print_error_updating,
                          Print_moved (dict_get device_names device_id device_id)
                            (determine_room pos)]\<rparr>)"
proof -
  let ?rs = "dict_get (device_readings s) device_id []"
  have "length (valid_readings now ?rs) \<le> length ?rs"
    by (simp add: valid_readings_def)
  then have l: "\<not> length ?rs < 3" "\<not> length (valid_readings now ?rs) < 3"
    using assms(1) by simp_all
  show ?thesis
    using l assms(2,3,4)
    by (simp add: update_device_location_def Let_def update_json_file_def)
qed

lemma locations_tracker_with:
  "device_locations (tracker_with rs) =
     map (\<lambda>(device_id, n).
            (device_id,
             \<lparr>room = Some ''Unknown'', position = (0, 0, 0), loc_timestamp = 0,
              friendly_name = None\<rparr>))
         device_names"
  by (simp add: tracker_with_def fresh_tracker_def init_def update_json_file_def)

lemma valid_three: "valid_readings 4000000 three_readings = three_readings"
  by (simp add: valid_readings_def three_readings_def total_seconds_def)

lemma valid_three_later: "valid_readings 5000000 three_readings = three_readings"
  by (simp add: valid_readings_def three_readings_def total_seconds_def)

lemma triangulate_three:
  "triangulate_position su_watch three_readings =
     Inr (6842633 / 2343750, 889 / 375, 1143 / 250)"
proof -
  have acc: "accumulate three_readings (0, (0, 0, 0)) =
      Inr (9 / 4, (9 / 4 * (6842633 / 2343750), 9 / 4 * (889 / 375), 9 / 4 * 1.524))"
    by (simp add: three_readings_def esp32_positions_def weight_def config_defs)
  show ?thesis
    using triangulate_of_accumulate [OF acc, of su_watch]
    by (simp add: snap_floor_def config_defs)
qed

lemma room_three: "determine_room (6842633 / 2343750, 889 / 375, 1143 / 250) = ''Bedroom''"
  by (simp add: determine_room_def rooms_def config_defs)

theorem room_change_guard_witness:
  "update_device_location 4000000 4000001 True su_watch (tracker_with three_readings) =
     Inr moved_tracker \<and>
   update_device_location 5000000 5000001 True su_watch moved_tracker = Inr moved_tracker"
proof -
  let ?s = "tracker_with three_readings"
  let ?init_loc = "\<lparr>room = Some ''Unknown'', position = (0, 0, 0), loc_timestamp = 0,
              friendly_name = None\<rparr>"
  have r: "dict_get (device_readings moved_tracker) su_watch [] = three_readings"
    by (simp add: moved_tracker_def readings_tracker_with)
  have h1: "3 \<le> length (valid_readings 4000000 (dict_get (device_readings ?s) su_watch []))"
    by (simp add: readings_tracker_with valid_three) (simp add: three_readings_def)
  have h2: "triangulate_position su_watch
      (valid_readings 4000000 (dict_get (device_readings ?s) su_watch [])) =
      Inr (6842633 / 2343750, 889 / 375, 1143 / 250)"
    by (simp add: readings_tracker_with valid_three triangulate_three)
  have h3: "map_of (device_locations ?s) su_watch = Some ?init_loc"
    by (simp add: locations_tracker_with device_names_def su_watch_def)
  have g1: "3 \<le> length (valid_readings 5000000
      (dict_get (device_readings moved_tracker) su_watch []))"
    by (simp add: r valid_three_later) (simp add: three_readings_def)
  have g2: "triangulate_position su_watch
      (valid_readings 5000000 (dict_get (device_readings moved_tracker) su_watch [])) =
      Inr (6842633 / 2343750, 889 / 375, 1143 / 250)"
    by (simp add: r valid_three_later triangulate_three)
  have g3: "map_of (device_locations moved_tracker) su_watch = Some bedroom_location"
    by (simp add: moved_tracker_def update_conv')
  have n: "dict_get device_names su_watch ''Unknown Device'' = ''Su Watch''"
    "dict_get device_names su_watch su_watch = ''Su Watch''"
    by (simp_all add: dict_get_def device_names_def su_watch_def)
  have a: "update_device_location 4000000 4000001 True su_watch ?s = Inr moved_tracker"
    using room_change_guard [OF h1 h2 h3 refl, of 4000001 True]
    by (simp add: room_three n stored_room_def bedroom_location_def moved_tracker_def)
  have b: "update_device_location 5000000 5000001 True su_watch moved_tracker =
      Inr moved_tracker"
    using room_change_guard [OF g1 g2 g3 refl, of 5000001 True]
    by (simp add: room_three stored_room_def bedroom_location_def)
  show ?thesis using a b by simp
qed

subsection \<open>The message handler\<close>

lemma update_device_location_readings:
  "update_device_location now t_upd write_ok device_id s = Inr s' \<Longrightarrow>
   device_readings s' = device_readings s"
  by (auto simp: update_device_location_def Let_def update_json_file_def
      split: if_splits sum.splits option.splits)

lemma on_message_well_formed:
  assumes "payload msg = Some (JObj kvs)"
    and "split CHR ''/'' (topic msg) = parts"
    and "4 \<le> length parts"
    and "parts ! 2 \<in> fst ` set device_names"
    and "''espresense_'' @ parts ! 3 \<in> fst ` set esp32_positions"
    and "map_of (device_readings s) (parts ! 2) = Some rs"
    and "s1 = s\<lparr>device_readings :=
                  AList.update (parts ! 2)
                    (AList.update (''espresense_'' @ parts ! 3)
                       \<lparr>distance = dict_get kvs ''distance'' (JNum 0), timestamp = t_store\<rparr> rs)
                    (device_readings s)\<rparr>"
  shows "on_message t_store now t_upd write_ok msg s =
           (case update_device_location now t_upd write_ok (parts ! 2) s1 of
              Inl e \<Rightarrow> s1\<lparr>trace := trace s1 @ [Print_error_processing e]\<rparr>
            | Inr s2 \<Rightarrow> s2)"
  using assms
  by (simp add: on_message_def on_message_body_def Let_def split: sum.splits)

lemma on_message_fewer_than_three:
  assumes "payload msg = Some (JObj kvs)"
    and "split CHR ''/'' (topic msg) = parts"
    and "4 \<le> length parts"
    and "parts ! 2 \<in> fst ` set device_names"
    and "''espresense_'' @ parts ! 3 \<in> fst ` set esp32_positions"
    and "map_of (device_readings s) (parts ! 2) = Some rs"
    and "rs' = AList.update (''espresense_'' @ parts ! 3)
                 \<lparr>distance = dict_get kvs ''distance'' (JNum 0), timestamp = t_store\<rparr> rs"
    and "length (valid_readings now rs') < 3"
  shows "on_message t_store now t_upd write_ok msg s =
           s\<lparr>device_readings := AList.update (parts ! 2) rs' (device_readings s)\<rparr>"
proof -
  let ?s1 = "s\<lparr>device_readings := AList.update (parts ! 2) rs' (device_readings s)\<rparr>"
  have "dict_get (device_readings ?s1) (parts ! 2) [] = rs'"
    by (simp add: dict_get_def update_conv')
  then have "update_device_location now t_upd write_ok (parts ! 2) ?s1 = Inr ?s1"
    using assms(8) by (simp add: update_device_location_def Let_def)
  then show ?thesis
    using on_message_well_formed [OF assms(1-6), of ?s1 t_store now t_upd write_ok] assms(7)
    by simp
qed

text \<open>
  Claim C7. A message whose payload does not parse, whose topic names a device that is not
  tracked or an anchor that is not configured (or has too few parts), or whose payload is
  not a JSON object, changes nothing but the output: no reading is stored, no location
  changes, nothing is written to the file, and the handler returns, having printed at
  most one error line.
\<close>

theorem malformed_message_dropped:
  assumes "payload msg = None
         \<or> length (split CHR ''/'' (topic msg)) < 4
         \<or> split CHR ''/'' (topic msg) ! 2 \<notin> fst ` set device_names
         \<or> ''espresense_'' @ split CHR ''/'' (topic msg) ! 3 \<notin> fst ` set esp32_positions
         \<or> (\<forall>kvs. payload msg \<noteq> Some (JObj kvs))"
  shows "on_message t_store now t_upd write_ok msg s = s
       \<or> (\<exists>e. on_message t_store now t_upd write_ok msg s =
                 s\<lparr>trace := trace s @ [Print_error_processing e]\<rparr>)"
proof (cases "payload msg")
  case None
  then have "on_message t_store now t_upd write_ok msg s =
      s\<lparr>trace := trace s @ [Print_error_processing JSONDecodeError]\<rparr>"
    by (simp add: on_message_def on_message_body_def)
  then show ?thesis by blast
next
  case (Some pl)
  show ?thesis
  proof (cases "\<exists>kvs. pl = JObj kvs")
    case True
    then obtain kvs where pl: "pl = JObj kvs" by blast
    have "length (split CHR ''/'' (topic msg)) < 4
         \<or> split CHR ''/'' (topic msg) ! 2 \<notin> fst ` set device_names
         \<or> ''espresense_'' @ split CHR ''/'' (topic msg) ! 3 \<notin> fst ` set esp32_positions"
      using assms Some pl by simp
    then show ?thesis
      using Some by (auto simp: on_message_def on_message_body_def Let_def)
  next
    case False
    then show ?thesis
      using Some
      by (cases pl) (auto simp: on_message_def on_message_body_def Let_def)
  qed
qed

lemma kitchen_parts:
  "split CHR ''/'' (topic (kitchen_message pl)) =
     [''espresense'', ''devices'', su_watch, ''kitchen'']"
  by (simp add: kitchen_message_def su_watch_def)

theorem malformed_message_dropped_witness:
  "payload (kitchen_message None) = None \<and>
   (on_message 1 2 3 True (kitchen_message None) fresh_tracker = fresh_tracker \<or>
    (\<exists>e. on_message 1 2 3 True (kitchen_message None) fresh_tracker =
       fresh_tracker\<lparr>trace := trace fresh_tracker @ [Print_error_processing e]\<rparr>)) \<and>
   split CHR ''/'' (topic unknown_device_message) ! 2 \<notin> fst ` set device_names \<and>
   (on_message 1 2 3 True unknown_device_message fresh_tracker = fresh_tracker \<or>
    (\<exists>e. on_message 1 2 3 True unknown_device_message fresh_tracker =
       fresh_tracker\<lparr>trace := trace fresh_tracker @ [Print_error_processing e]\<rparr>)) \<and>
   ''espresense_'' @ split CHR ''/'' (topic unknown_anchor_message) ! 3
      \<notin> fst ` set esp32_positions \<and>
   (on_message 1 2 3 True unknown_anchor_message fresh_tracker = fresh_tracker \<or>
    (\<exists>e. on_message 1 2 3 True unknown_anchor_message fresh_tracker =
       fresh_tracker\<lparr>trace := trace fresh_tracker @ [Print_error_processing e]\<rparr>))"
proof -
  have a: "payload (kitchen_message None) = None"
    by (simp add: kitchen_message_def)
  have b: "split CHR ''/'' (topic unknown_device_message) ! 2 \<notin> fst ` set device_names"
    by (simp add: unknown_device_message_def device_names_def)
  have c: "''espresense_'' @ split CHR ''/'' (topic unknown_anchor_message) ! 3
      \<notin> fst ` set esp32_positions"
    by (simp add: unknown_anchor_message_def esp32_positions_def)
  show ?thesis
    using a b c
      malformed_message_dropped [of "kitchen_message None" 1 2 3 True "fresh_tracker"]
      malformed_message_dropped [of unknown_device_message 1 2 3 True "fresh_tracker"]
      malformed_message_dropped [of unknown_anchor_message 1 2 3 True "fresh_tracker"]
    by blast
qed

text \<open>
  Claim C10. A JSON object from a tracked device and a configured anchor is stored with the
  distance it carries, or with 0 when it has no \<open>"distance"\<close> field; nothing rejects a
  zero or negative distance. In the triangulation every stored numeric distance of at most
  0.1 enters with the weight 100.
\<close>

theorem distance_default_and_clamp:
  assumes "payload msg = Some (JObj kvs)"
    and "split CHR ''/'' (topic msg) = parts"
    and "4 \<le> length parts"
    and "parts ! 2 \<in> fst ` set device_names"
    and "''espresense_'' @ parts ! 3 \<in> fst ` set esp32_positions"
    and "map_of (device_readings s) (parts ! 2) = Some rs"
    and "v = dict_get kvs ''distance'' (JNum 0)"
  shows "map_of (dict_get (device_readings (on_message t_store now t_upd write_ok msg s))
                   (parts ! 2) [])
           (''espresense_'' @ parts ! 3) = Some \<lparr>distance = v, timestamp = t_store\<rparr> \<and>
         (map_of kvs ''distance'' = None \<longrightarrow> v = JNum 0) \<and>
         (\<forall>d. num_of v = Some d \<and> d \<le> 0.1 \<longrightarrow>
            (\<forall>ex ey ez rest tw px py pz.
               map_of esp32_positions (''espresense_'' @ parts ! 3) = Some (ex, ey, ez) \<longrightarrow>
               accumulate ((''espresense_'' @ parts ! 3, \<lparr>distance = v, timestamp = t_store\<rparr>) # rest)
                   (tw, (px, py, pz)) =
                 accumulate rest (tw + 100, (px + ex * 100, py + ey * 100, pz + ez * 100))))"
proof -
  define s1 where "s1 = s\<lparr>device_readings :=
                  AList.update (parts ! 2)
                    (AList.update (''espresense_'' @ parts ! 3)
                       \<lparr>distance = dict_get kvs ''distance'' (JNum 0), timestamp = t_store\<rparr> rs)
                    (device_readings s)\<rparr>"
  have om: "on_message t_store now t_upd write_ok msg s =
           (case update_device_location now t_upd write_ok (parts ! 2) s1 of
              Inl e \<Rightarrow> s1\<lparr>trace := trace s1 @ [Print_error_processing e]\<rparr>
            | Inr s2 \<Rightarrow> s2)"
    using assms(1-6) s1_def by (rule on_message_well_formed)
  have "device_readings (on_message t_store now t_upd write_ok msg s) = device_readings s1"
    unfolding om
    by (cases "update_device_location now t_upd write_ok (parts ! 2) s1")
      (simp_all add: update_device_location_readings)
  then have stored: "map_of (dict_get (device_readings (on_message t_store now t_upd write_ok msg s))
                   (parts ! 2) [])
           (''espresense_'' @ parts ! 3) = Some \<lparr>distance = v, timestamp = t_store\<rparr>"
    by (simp add: s1_def dict_get_def update_conv' assms(7))
  have dflt: "map_of kvs ''distance'' = None \<longrightarrow> v = JNum 0"
    by (simp add: assms(7) dict_get_def)
  have clamp: "\<And>d. d \<le> 0.1 \<Longrightarrow> weight d = 100"
    by (simp add: weight_def)
  show ?thesis
    using stored dflt by (simp add: clamp)
qed

theorem distance_default_and_clamp_witness:
  "map_of (dict_get (device_readings
              (on_message 1000000 1000001 1000002 True (kitchen_message (Some (JObj [])))
                 fresh_tracker))
             su_watch [])
      ''espresense_kitchen'' = Some \<lparr>distance = JNum 0, timestamp = 1000000\<rparr> \<and>
   accumulate [(''espresense_kitchen'', \<lparr>distance = JNum 0, timestamp = 1000000\<rparr>)]
       (0, (0, 0, 0)) =
     Inr (100, (15 * FEET_TO_METERS * 100, 6 * FEET_TO_METERS * 100,
                (floor_height + 3 * FEET_TO_METERS) * 100)) \<and>
   map_of (dict_get (device_readings
              (on_message 1000000 1000001 1000002 True
                 (kitchen_message (Some (JObj [(''distance'', JNum (- 5))])))
                 fresh_tracker))
             su_watch [])
      ''espresense_kitchen'' = Some \<lparr>distance = JNum (- 5), timestamp = 1000000\<rparr>"
proof -
  have h1: "\<And>kvs. payload (kitchen_message (Some (JObj kvs))) = Some (JObj kvs)"
    by (simp add: kitchen_message_def)
  let ?parts = "[''espresense'', ''devices'', su_watch, ''kitchen'']"
  have h3: "4 \<le> length ?parts" by simp
  have h4: "?parts ! 2 \<in> fst ` set device_names"
    by (simp add: device_names_def su_watch_def)
  have h5: "''espresense_'' @ ?parts ! 3 \<in> fst ` set esp32_positions"
    by (simp add: esp32_positions_def)
  have h6: "map_of (device_readings fresh_tracker) (?parts ! 2) = Some []"
    by (simp add: fresh_tracker_def init_def update_json_file_def device_names_def su_watch_def)
  have k: "map_of esp32_positions ''espresense_kitchen'' =
      Some (15 * FEET_TO_METERS, 6 * FEET_TO_METERS, floor_height + 3 * FEET_TO_METERS)"
    by (simp add: esp32_positions_def)
  have p3: "?parts ! 3 = ''kitchen''" "?parts ! 2 = su_watch" by simp_all
  note w1 = distance_default_and_clamp
      [where kvs = "[]" and t_store = 1000000 and now = 1000001 and t_upd = 1000002
         and write_ok = True,
       OF h1 kitchen_parts h3 h4 h5 h6 refl]
  note w2 = distance_default_and_clamp
      [where kvs = "[(''distance'', JNum (- 5))]" and t_store = 1000000 and now = 1000001
         and t_upd = 1000002 and write_ok = True,
       OF h1 kitchen_parts h3 h4 h5 h6 refl]
  have a: "map_of (dict_get (device_readings
              (on_message 1000000 1000001 1000002 True (kitchen_message (Some (JObj [])))
                 fresh_tracker))
             su_watch [])
      ''espresense_kitchen'' = Some \<lparr>distance = JNum 0, timestamp = 1000000\<rparr>"
    using w1 [THEN conjunct1] unfolding p3 by (simp add: dict_get_def)
  have b: "accumulate [(''espresense_kitchen'', \<lparr>distance = JNum 0, timestamp = 1000000\<rparr>)]
       (0, (0, 0, 0)) =
     Inr (100, (15 * FEET_TO_METERS * 100, 6 * FEET_TO_METERS * 100,
                (floor_height + 3 * FEET_TO_METERS) * 100))"
    using w1 [THEN conjunct2, THEN conjunct2, rule_format, of 0
        "15 * FEET_TO_METERS" "6 * FEET_TO_METERS" "floor_height + 3 * FEET_TO_METERS"
        "[]" 0 0 0 0] k
    unfolding p3 by (simp add: dict_get_def)
  have c: "map_of (dict_get (device_readings
              (on_message 1000000 1000001 1000002 True
                 (kitchen_message (Some (JObj [(''distance'', JNum (- 5))])))
                 fresh_tracker))
             su_watch [])
      ''espresense_kitchen'' = Some \<lparr>distance = JNum (- 5), timestamp = 1000000\<rparr>"
    using w2 [THEN conjunct1] unfolding p3 by (simp add: dict_get_def)
  show ?thesis using a b c by simp
qed

end
